theory Spec2Isabelle
  imports Complex_Main
begin

section \<open>JavaScript numbers\<close>

text \<open>
  A JavaScript number is modelled as a real number or one of the three special values of
  IEEE 754 arithmetic. The operators below compute exactly on finite values; rounding is
  a separate step (\<open>round_num\<close>, further down), applied where a property depends on
  it. Overflow, underflow and the sign of zero are not part of the model (a zero divisor
  counts as \<open>+0\<close>, which is what \<open>Math.sqrt\<close> of a sum of squares returns). What
  the operators keep is the behaviour the program depends on at the edges: division by zero yields an
  infinity or \<open>NaN\<close>, \<open>0 * Infinity\<close> and \<open>Infinity - Infinity\<close> are \<open>NaN\<close>,
  \<open>NaN\<close> propagates through arithmetic and every comparison with \<open>NaN\<close> is false.
\<close>

datatype number = Fin real | PInf | NInf | NaN

fun num_neg :: "number \<Rightarrow> number" where
  "num_neg (Fin a) = Fin (- a)"
| "num_neg PInf = NInf"
| "num_neg NInf = PInf"
| "num_neg NaN = NaN"

fun num_add :: "number \<Rightarrow> number \<Rightarrow> number" where
  "num_add (Fin a) (Fin b) = Fin (a + b)"
| "num_add NaN _ = NaN"
| "num_add _ NaN = NaN"
| "num_add PInf NInf = NaN"
| "num_add NInf PInf = NaN"
| "num_add PInf _ = PInf"
| "num_add _ PInf = PInf"
| "num_add NInf _ = NInf"
| "num_add _ NInf = NInf"

fun num_mul :: "number \<Rightarrow> number \<Rightarrow> number" where
  "num_mul (Fin a) (Fin b) = Fin (a * b)"
| "num_mul NaN _ = NaN"
| "num_mul _ NaN = NaN"
| "num_mul PInf (Fin b) = (if b = 0 then NaN else if 0 < b then PInf else NInf)"
| "num_mul NInf (Fin b) = (if b = 0 then NaN else if 0 < b then NInf else PInf)"
| "num_mul (Fin a) PInf = (if a = 0 then NaN else if 0 < a then PInf else NInf)"
| "num_mul (Fin a) NInf = (if a = 0 then NaN else if 0 < a then NInf else PInf)"
| "num_mul PInf PInf = PInf"
| "num_mul NInf NInf = PInf"
| "num_mul PInf NInf = NInf"
| "num_mul NInf PInf = NInf"

fun num_div :: "number \<Rightarrow> number \<Rightarrow> number" where
  "num_div (Fin a) (Fin b) =
     (if b \<noteq> 0 then Fin (a / b)
      else if a = 0 then NaN else if 0 < a then PInf else NInf)"
| "num_div NaN _ = NaN"
| "num_div _ NaN = NaN"
| "num_div (Fin a) _ = Fin 0"
| "num_div PInf (Fin b) = (if 0 \<le> b then PInf else NInf)"
| "num_div NInf (Fin b) = (if 0 \<le> b then NInf else PInf)"
| "num_div _ _ = NaN"

fun num_sqrt :: "number \<Rightarrow> number" where
  "num_sqrt (Fin a) = (if a < 0 then NaN else Fin (sqrt a))"
| "num_sqrt PInf = PInf"
| "num_sqrt NInf = NaN"
| "num_sqrt NaN = NaN"

fun num_lt :: "number \<Rightarrow> number \<Rightarrow> bool" where
  "num_lt (Fin a) (Fin b) = (a < b)"
| "num_lt NaN _ = False"
| "num_lt _ NaN = False"
| "num_lt _ NInf = False"
| "num_lt PInf _ = False"
| "num_lt _ _ = True"

fun num_le :: "number \<Rightarrow> number \<Rightarrow> bool" where
  "num_le (Fin a) (Fin b) = (a \<le> b)"
| "num_le NaN _ = False"
| "num_le _ NaN = False"
| "num_le NInf _ = True"
| "num_le _ PInf = True"
| "num_le _ _ = False"

text \<open>The operators \<open>+ - * / < <=\<close> on numbers are the functions above.\<close>

instantiation number :: "{plus, minus, uminus, times, inverse, ord}"
begin
definition plus_number :: "number \<Rightarrow> number \<Rightarrow> number" where
  "plus_number a b = num_add a b"
definition uminus_number :: "number \<Rightarrow> number" where
  "uminus_number a = num_neg a"
definition minus_number :: "number \<Rightarrow> number \<Rightarrow> number" where
  "minus_number a b = num_add a (num_neg b)"
definition times_number :: "number \<Rightarrow> number \<Rightarrow> number" where
  "times_number a b = num_mul a b"
definition divide_number :: "number \<Rightarrow> number \<Rightarrow> number" where
  "divide_number a b = num_div a b"
definition inverse_number :: "number \<Rightarrow> number" where
  "inverse_number a = num_div (Fin 1) a"
definition less_number :: "number \<Rightarrow> number \<Rightarrow> bool" where
  "less_number a b = num_lt a b"
definition less_eq_number :: "number \<Rightarrow> number \<Rightarrow> bool" where
  "less_eq_number a b = num_le a b"
instance ..
end

text \<open>\<open>Math.abs\<close>, and \<open>Number.isFinite\<close>.\<close>

fun num_abs :: "number \<Rightarrow> number" where
  "num_abs (Fin a) = Fin \<bar>a\<bar>"
| "num_abs PInf = PInf"
| "num_abs NInf = PInf"
| "num_abs NaN = NaN"

fun isFinite :: "number \<Rightarrow> bool" where
  "isFinite (Fin a) = True"
| "isFinite _ = False"

text \<open>
  \<open>x || d\<close> on a number \<open>x\<close>: the falsy numbers are zero and \<open>NaN\<close>.
\<close>

definition or_default :: "number \<Rightarrow> number \<Rightarrow> number" where
  "or_default v d = (if v = Fin 0 \<or> v = NaN then d else v)"

text \<open>
  Rounding. The operators above compute exactly. Where the rounding of the arithmetic
  matters, every operation is followed by \<open>round_num fl\<close>, which rounds a finite result
  with \<open>fl\<close> and leaves the special values alone. \<open>fl64\<close> is the rounding of the
  source's binary64 numbers, to the nearest number with a significand of 53 bits, ties to
  the even one; the range of the exponent is not bounded, so overflow and underflow are
  not part of it.
\<close>

definition round_num :: "(real \<Rightarrow> real) \<Rightarrow> number \<Rightarrow> number" where
  "round_num fl a = (case a of Fin r \<Rightarrow> Fin (fl r) | _ \<Rightarrow> a)"



section \<open>Vector\<close>

text \<open>
  The fields \<open>x\<close> and \<open>y\<close> of the source's \<open>Vector\<close> are \<open>vx\<close> and \<open>vy\<close> here.
  The constructor \<open>Vector(x, y)\<close> stores \<open>x || 0\<close> and \<open>y || 0\<close>, so it turns a
  \<open>NaN\<close> argument into zero. The mutating methods return the updated vector.
\<close>

record vector =
  vx :: number
  vy :: number

definition Vector :: "number \<Rightarrow> number \<Rightarrow> vector" where
  "Vector a b = \<lparr>vx = or_default a (Fin 0), vy = or_default b (Fin 0)\<rparr>"

definition Vector_sub :: "vector \<Rightarrow> vector \<Rightarrow> vector" where
  "Vector_sub v1 v2 = Vector (vx v1 - vx v2) (vy v1 - vy v2)"

definition add :: "vector \<Rightarrow> vector \<Rightarrow> vector" where
  "add this v = this\<lparr>vx := vx this + vx v, vy := vy this + vy v\<rparr>"

definition sub :: "vector \<Rightarrow> vector \<Rightarrow> vector" where
  "sub this v = this\<lparr>vx := vx this - vx v, vy := vy this - vy v\<rparr>"

definition mult :: "vector \<Rightarrow> number \<Rightarrow> vector" where
  "mult this v = this\<lparr>vx := vx this * v, vy := vy this * v\<rparr>"

definition setXY :: "vector \<Rightarrow> number \<Rightarrow> number \<Rightarrow> vector" where
  "setXY this a b = this\<lparr>vx := a, vy := b\<rparr>"

definition dist_vec :: "vector \<Rightarrow> vector \<Rightarrow> number" where
  "dist_vec this v =
     (let dx = vx this - vx v; dy = vy this - vy v
      in num_sqrt (dx * dx + dy * dy))"

definition finite_vector :: "vector \<Rightarrow> bool" where
  "finite_vector v = (isFinite (vx v) \<and> isFinite (vy v))"

section \<open>Mouse and Dot\<close>

record mouse =
  mouse_pos :: vector
  mouse_radius :: number

text \<open>The pointer as its constructor leaves it: far off screen, with radius 40.\<close>

definition Mouse :: mouse where
  "Mouse = \<lparr>mouse_pos = Vector (Fin (- 1000)) (Fin (- 1000)), mouse_radius = Fin 40\<rparr>"

text \<open>
  The fields of a \<open>Dot\<close> that the simulation reads or writes. The random \<open>id\<close> and
  the image fields are used by drawing only.
\<close>

record dot =
  pos :: vector
  oldPos :: vector
  radius :: number
  friction :: number
  gravity :: vector
  mass :: number
  pinned :: bool
  distMouse :: number

definition Dot :: "number \<Rightarrow> number \<Rightarrow> dot" where
  "Dot a b =
     \<lparr>pos = Vector a b, oldPos = Vector a b, radius = Fin 1, friction = Fin 0.97,
      gravity = Vector (Fin 0) (Fin 0.6), mass = Fin 1, pinned = False,
      distMouse = Fin 1000\<rparr>"

text \<open>Lines 39 to 44 of \<open>Dot.update\<close>: the Verlet step.\<close>

definition integrate :: "dot \<Rightarrow> dot" where
  "integrate this =
     (let vel = Vector_sub (pos this) (oldPos this);
          vel = mult vel (friction this);
          this = this\<lparr>oldPos := setXY (oldPos this) (vx (pos this)) (vy (pos this))\<rparr>;
          vel = add vel (gravity this)
      in this\<lparr>pos := add (pos this) vel\<rparr>)"

text \<open>Lines 46 to 60 of \<open>Dot.update\<close>: the interaction with the pointer.\<close>

definition interact :: "dot \<Rightarrow> mouse \<Rightarrow> dot" where
  "interact this m =
     (let d = Vector_sub (pos this) (mouse_pos m);
          dx = vx d; dy = vy d;
          this = this\<lparr>distMouse := num_sqrt (dx * dx + dy * dy)\<rparr>
      in if distMouse this > mouse_radius m + radius this then this
         else
           let direction = Vector (dx / distMouse this) (dy / distMouse this);
               force = (mouse_radius m - distMouse this) / mouse_radius m;
               force = (if force < Fin 0 then Fin 0 else force)
           in if force < Fin 0.6
              then this\<lparr>pos := sub (pos this) (mult (mult direction force) (Fin 0.0001))\<rparr>
              else this\<lparr>pos := setXY (pos this) (vx (mouse_pos m)) (vy (mouse_pos m))\<rparr>)"

definition Dot_update :: "dot \<Rightarrow> mouse \<Rightarrow> dot" where
  "Dot_update this m = (if pinned this then this else interact (integrate this) m)"

section \<open>Stick\<close>

text \<open>
  A \<open>Stick\<close> refers to two dots of its rope. The rope's \<open>dots\<close> array is filled
  once by \<open>create\<close> and never reordered or shortened afterwards, so a reference to a
  dot is modelled as the index of the dot in that array, and \<open>Stick.update\<close> takes the
  array and returns it with the two dots updated. The writes happen in the order of the
  source: the start point first, then the end point, which is read again after the first
  write. The field \<open>length\<close> is \<open>length_stick\<close> here.
\<close>

record stick =
  startPoint :: nat
  endPoint :: nat
  tension :: number
  length_stick :: number

definition Stick :: "nat \<Rightarrow> nat \<Rightarrow> dot list \<Rightarrow> stick" where
  "Stick p1 p2 ds =
     \<lparr>startPoint = p1, endPoint = p2, tension = Fin 1,
      length_stick = dist_vec (pos (ds ! p1)) (pos (ds ! p2))\<rparr>"

definition Stick_update :: "stick \<Rightarrow> dot list \<Rightarrow> dot list" where
  "Stick_update this ds =
     (let dx = vx (pos (ds ! endPoint this)) - vx (pos (ds ! startPoint this));
          dy = vy (pos (ds ! endPoint this)) - vy (pos (ds ! startPoint this));
          dist = num_sqrt (dx * dx + dy * dy);
          diff = ((length_stick this - dist) / dist) * tension this;
          offsetX = dx * diff * Fin 0.5;
          offsetY = dy * diff * Fin 0.5;
          m = mass (ds ! endPoint this) + mass (ds ! startPoint this);
          m1 = mass (ds ! endPoint this) / m;
          m2 = mass (ds ! startPoint this) / m;
          ds = (if \<not> pinned (ds ! startPoint this)
                then let sp = ds ! startPoint this
                     in ds[startPoint this :=
                           sp\<lparr>pos := (pos sp)\<lparr>vx := vx (pos sp) - offsetX * m1,
                                               vy := vy (pos sp) - offsetY * m1\<rparr>\<rparr>]
                else ds);
          ds = (if \<not> pinned (ds ! endPoint this)
                then let ep = ds ! endPoint this
                     in ds[endPoint this :=
                           ep\<lparr>pos := (pos ep)\<lparr>vx := vx (pos ep) + offsetX * m2,
                                               vy := vy (pos ep) + offsetY * m2\<rparr>\<rparr>]
                else ds)
      in ds)"

text \<open>
  \<open>Stick.update\<close> with the result of every arithmetic operation rounded by \<open>fl\<close>:
  lines 95 to 114 perform sixteen operations for \<open>dist\<close>, \<open>diff\<close>, the offsets
  and the mass shares, and two for each coordinate that is written.
\<close>

definition Stick_update_fl :: "(real \<Rightarrow> real) \<Rightarrow> stick \<Rightarrow> dot list \<Rightarrow> dot list" where
  "Stick_update_fl fl this ds =
     (let R = round_num fl;
          dx = R (vx (pos (ds ! endPoint this)) - vx (pos (ds ! startPoint this)));
          dy = R (vy (pos (ds ! endPoint this)) - vy (pos (ds ! startPoint this)));
          dist = R (num_sqrt (R (R (dx * dx) + R (dy * dy))));
          diff = R (R (R (length_stick this - dist) / dist) * tension this);
          offsetX = R (R (dx * diff) * Fin 0.5);
          offsetY = R (R (dy * diff) * Fin 0.5);
          m = R (mass (ds ! endPoint this) + mass (ds ! startPoint this));
          m1 = R (mass (ds ! endPoint this) / m);
          m2 = R (mass (ds ! startPoint this) / m);
          ds = (if \<not> pinned (ds ! startPoint this)
                then let sp = ds ! startPoint this
                     in ds[startPoint this :=
                           sp\<lparr>pos := (pos sp)\<lparr>vx := R (vx (pos sp) - R (offsetX * m1)),
                                               vy := R (vy (pos sp) - R (offsetY * m1))\<rparr>\<rparr>]
                else ds);
          ds = (if \<not> pinned (ds ! endPoint this)
                then let ep = ds ! endPoint this
                     in ds[endPoint this :=
                           ep\<lparr>pos := (pos ep)\<lparr>vx := R (vx (pos ep) + R (offsetX * m2)),
                                               vy := R (vy (pos ep) + R (offsetY * m2))\<rparr>\<rparr>]
                else ds)
      in ds)"

section \<open>Rope\<close>

text \<open>
  The fields \<open>x\<close> and \<open>y\<close> of a rope and of its configuration carry a prefix here.
  \<open>segments\<close> is a count; \<open>config.segments || 10\<close> replaces zero by ten.
\<close>

datatype error = TypeError

record config =
  config_x :: number
  config_y :: number
  config_gap :: number
  config_segments :: nat

record rope =
  rope_x :: number
  rope_y :: number
  segments :: nat
  gap :: number
  dots :: "dot list"
  sticks :: "stick list"
  iterations :: nat

definition create :: "rope \<Rightarrow> rope" where
  "create this =
     (let this = fold (\<lambda>i r. r\<lparr>dots := dots r @
                          [Dot (rope_x r) (rope_y r + Fin (real i) * gap r)]\<rparr>)
                   [0 ..< segments this] this
      in fold (\<lambda>i r. r\<lparr>sticks := sticks r @ [Stick i (i + 1) (dots r)]\<rparr>)
           [0 ..< segments this - 1] this)"

definition Rope :: "config \<Rightarrow> rope" where
  "Rope c =
     create \<lparr>rope_x = config_x c, rope_y = config_y c,
             segments = (if config_segments c = 0 then 10 else config_segments c),
             gap = or_default (config_gap c) (Fin 15),
             dots = [], sticks = [], iterations = 10\<rparr>"

text \<open>\<open>this.dots[index].pinned = true\<close> throws a TypeError when there is no such dot.\<close>

definition pin :: "nat \<Rightarrow> rope \<Rightarrow> error + rope" where
  "pin index this =
     (if index < length (dots this)
      then Inr (this\<lparr>dots := (dots this)[index := (dots this ! index)\<lparr>pinned := True\<rparr>]\<rparr>)
      else Inl TypeError)"

definition Rope_update :: "rope \<Rightarrow> mouse \<Rightarrow> rope" where
  "Rope_update this m =
     (let this = this\<lparr>dots := map (\<lambda>d. Dot_update d m) (dots this)\<rparr>
      in this\<lparr>dots := ((\<lambda>ds. fold Stick_update (sticks this) ds) ^^ iterations this)
                         (dots this)\<rparr>)"

section \<open>App\<close>

text \<open>
  \<open>App.width\<close> and \<open>App.height\<close> are the window's \<open>innerWidth\<close> and
  \<open>innerHeight\<close>, which are finite, so they are real numbers here. \<open>rnd k\<close> is the
  result of the \<open>k\<close>-th call of \<open>Math.random\<close> made by \<open>randomNumBetween\<close>.
\<close>

definition randomNumBetween :: "number \<Rightarrow> number \<Rightarrow> number \<Rightarrow> number" where
  "randomNumBetween r lo hi = r * (hi - lo) + lo"

function createRopes_loop ::
  "real \<Rightarrow> real \<Rightarrow> (nat \<Rightarrow> number) \<Rightarrow> nat \<Rightarrow> rope list \<Rightarrow> error + rope list" where
  "createRopes_loop w h rnd i ropes =
     (let TOTAL = Fin w * Fin 0.06
      in if Fin (real i) < TOTAL + Fin 1
         then
           let x = randomNumBetween (rnd (2 * i)) (Fin w * Fin 0.3) (Fin w * Fin 0.7);
               y = Fin 0;
               gap = randomNumBetween (rnd (2 * i + 1)) (Fin h * Fin 0.05) (Fin h * Fin 0.08);
               segments = 10;
               rope = Rope \<lparr>config_x = x, config_y = y, config_gap = gap,
                             config_segments = segments\<rparr>
           in case pin 0 rope of
                Inl e \<Rightarrow> Inl e
              | Inr rope \<Rightarrow> createRopes_loop w h rnd (Suc i) (ropes @ [rope])
         else Inr ropes)"
  by pat_completeness auto
termination
  apply (relation "measure (\<lambda>(w, h, rnd, i, ropes). nat \<lceil>w * 0.06 + 1\<rceil> - i)")
   apply simp
  apply (simp add: less_number_def plus_number_def times_number_def)
  apply linarith
  done

definition createRopes :: "real \<Rightarrow> real \<Rightarrow> (nat \<Rightarrow> number) \<Rightarrow> error + rope list" where
  "createRopes w h rnd = createRopes_loop w h rnd 0 []"

section \<open>Measuring a stick, and example data\<close>

text \<open>
  The error of a stick is the absolute difference between the distance of its two dots,
  computed as \<open>Stick.update\<close> computes it, and its rest length.
\<close>

definition stick_error :: "stick \<Rightarrow> dot list \<Rightarrow> number" where
  "stick_error s ds =
     num_abs (dist_vec (pos (ds ! endPoint s)) (pos (ds ! startPoint s)) - length_stick s)"

text \<open>
  Two dots at distance 5, the first pinned or not, joined by a stick of rest length 10;
  two dots at the same place, joined by a stick of rest length 15; a random source that
  always returns one half; a rope of two dots.
\<close>

definition ex_stick :: stick where
  "ex_stick = \<lparr>startPoint = 0, endPoint = 1, tension = Fin 1, length_stick = Fin 10\<rparr>"

definition ex_dots :: "dot list" where
  "ex_dots = [(Dot (Fin 0) (Fin 0))\<lparr>pinned := True\<rparr>, Dot (Fin 3) (Fin 4)]"

definition ex_free_dots :: "dot list" where
  "ex_free_dots = [Dot (Fin 0) (Fin 0), Dot (Fin 3) (Fin 4)]"

definition ex_stick15 :: stick where
  "ex_stick15 = \<lparr>startPoint = 0, endPoint = 1, tension = Fin 1, length_stick = Fin 15\<rparr>"

definition ex_coincident :: "dot list" where
  "ex_coincident = [Dot (Fin 100) (Fin 108), Dot (Fin 100) (Fin 108)]"

definition ex_anchored :: "dot list" where
  "ex_anchored = [(Dot (Fin 100) (Fin 108))\<lparr>pinned := True\<rparr>, Dot (Fin 100) (Fin 108)]"

definition ex_rope :: rope where
  "ex_rope = \<lparr>rope_x = Fin 0, rope_y = Fin 0, segments = 2, gap = Fin 5,
              dots = ex_dots, sticks = [ex_stick], iterations = 10\<rparr>"

definition ex_rnd :: "nat \<Rightarrow> number" where
  "ex_rnd k = Fin 0.5"

text \<open>
  A rope of two dots, 15 apart and not pinned, and a pointer between them, within 16 of
  each dot after the Verlet step.
\<close>

definition ex_two_rope :: rope where
  "ex_two_rope = Rope \<lparr>config_x = Fin 100, config_y = Fin 100, config_gap = Fin 15,
                        config_segments = 2\<rparr>"

definition ex_pointer :: mouse where
  "ex_pointer = \<lparr>mouse_pos = \<lparr>vx = Fin 100, vy = Fin 108\<rparr>, mouse_radius = Fin 40\<rparr>"


section \<open>Evaluation and arithmetic helpers\<close>

lemmas number_ops =
  plus_number_def uminus_number_def minus_number_def times_number_def
  divide_number_def less_number_def less_eq_number_def

lemmas eval_defs =
  Dot_def Vector_def or_default_def Vector_sub_def add_def sub_def mult_def setXY_def
  integrate_def interact_def Dot_update_def Let_def number_ops Mouse_def

lemma isFinite_iff: "isFinite a = (\<exists>r. a = Fin r)"
  by (cases a) simp_all

lemma num_le_not_gt: "(a::number) \<le> b \<Longrightarrow> \<not> b < a"
  by (cases a; cases b) (auto simp: number_ops)

lemma num_ge_06_not_lt: "Fin 0.6 \<le> (f::number) \<Longrightarrow> \<not> f < Fin 0 \<and> \<not> f < Fin 0.6"
  by (cases f) (auto simp: number_ops)

lemma lt_num_sqrt: "0 \<le> c \<Longrightarrow> c * c < a \<Longrightarrow> num_lt (Fin c) (num_sqrt (Fin a))"
proof -
  assume c: "0 \<le> c" and a: "c * c < a"
  have "0 \<le> c * c" using c by simp
  then have "\<not> a < 0" using a by linarith
  moreover have "c < sqrt a"
    using a by (intro real_less_rsqrt) (simp add: power2_eq_square)
  ultimately show ?thesis by simp
qed

lemma sqrt_16: "sqrt 16 = 4"
  by (rule real_sqrt_unique) simp_all

lemma sqrt_25: "sqrt 25 = 5"
  by (rule real_sqrt_unique) simp_all

lemma sqrt_225: "sqrt 225 = 15"
  by (rule real_sqrt_unique) simp_all

lemma sqrt_1369_25: "sqrt (1369 / 25) = 37 / 5"
  by (rule real_sqrt_unique) (simp_all add: power2_eq_square)

lemma sqrt_1444_25: "sqrt (1444 / 25) = 38 / 5"
  by (rule real_sqrt_unique) (simp_all add: power2_eq_square)

lemma upt_0_2: "[0..<2] = [0, Suc 0]"
  by (simp add: upt_rec numeral_2_eq_2)

lemma radius_integrate: "radius (integrate this) = radius this"
  by (simp add: integrate_def Let_def)

lemma sub_self_default: "or_default ((a::number) - a) (Fin 0) = Fin 0"
  by (cases a) (simp_all add: or_default_def number_ops)

lemma Vector_sub_self: "Vector_sub p p = \<lparr>vx = Fin 0, vy = Fin 0\<rparr>"
  by (simp add: Vector_sub_def Vector_def sub_self_default)

lemma force_at_zero:
  "\<not> ((R::number) - Fin 0) / R < Fin 0 \<and> \<not> (R - Fin 0) / R < Fin 0.6"
  by (cases R) (simp_all add: number_ops)

section \<open>Properties of Dot.update\<close>

text \<open>
  C1: for an unpinned dot with finite position, previous position, friction and gravity,
  \<open>Dot.update\<close> is the Verlet step followed by the pointer interaction. The step takes
  the velocity \<open>pos - oldPos\<close>, multiplies it by the friction, stores the position in
  \<open>oldPos\<close>, adds the gravity to the velocity and adds the velocity to the position.
  After it the position is the old position plus friction times (old position minus old
  previous position) plus gravity, and the previous position is the old position.
\<close>

theorem verlet_step:
  assumes "\<not> pinned this"
    and "finite_vector (pos this)" and "finite_vector (oldPos this)"
    and "isFinite (friction this)" and "finite_vector (gravity this)"
  shows "Dot_update this m = interact (integrate this) m
       \<and> integrate this =
           this\<lparr>oldPos := pos this,
                pos := add (pos this)
                         (add (mult (Vector_sub (pos this) (oldPos this)) (friction this))
                              (gravity this))\<rparr>
       \<and> vx (pos (integrate this)) =
           vx (pos this) + friction this * (vx (pos this) - vx (oldPos this))
             + vx (gravity this)
       \<and> vy (pos (integrate this)) =
           vy (pos this) + friction this * (vy (pos this) - vy (oldPos this))
             + vy (gravity this)
       \<and> oldPos (integrate this) = pos this"
proof -
  obtain px py ox oy f gx gy where v:
    "vx (pos this) = Fin px" "vy (pos this) = Fin py"
    "vx (oldPos this) = Fin ox" "vy (oldPos this) = Fin oy"
    "friction this = Fin f" "vx (gravity this) = Fin gx" "vy (gravity this) = Fin gy"
    using assms(2-5) unfolding finite_vector_def isFinite_iff by auto
  have 1: "Dot_update this m = interact (integrate this) m"
    using assms(1) by (simp add: Dot_update_def)
  have 2: "integrate this =
           this\<lparr>oldPos := pos this,
                pos := add (pos this)
                         (add (mult (Vector_sub (pos this) (oldPos this)) (friction this))
                              (gravity this))\<rparr>"
    by (simp add: integrate_def Let_def setXY_def)
  have 3: "vx (pos (integrate this)) =
           vx (pos this) + friction this * (vx (pos this) - vx (oldPos this))
             + vx (gravity this)"
    unfolding 2 using v
    by (simp add: add_def mult_def Vector_sub_def Vector_def or_default_def number_ops
        algebra_simps)
  have 4: "vy (pos (integrate this)) =
           vy (pos this) + friction this * (vy (pos this) - vy (oldPos this))
             + vy (gravity this)"
    unfolding 2 using v
    by (simp add: add_def mult_def Vector_sub_def Vector_def or_default_def number_ops
        algebra_simps)
  have 5: "oldPos (integrate this) = pos this"
    unfolding 2 by simp
  show ?thesis using 1 2 3 4 5 by blast
qed

theorem verlet_step_witness:
  "\<not> pinned ((Dot (Fin 1) (Fin 2))\<lparr>oldPos := \<lparr>vx = Fin 0, vy = Fin 0\<rparr>\<rparr>)
   \<and> vx (pos (integrate ((Dot (Fin 1) (Fin 2))\<lparr>oldPos := \<lparr>vx = Fin 0, vy = Fin 0\<rparr>\<rparr>)))
       = Fin 1.97
   \<and> vy (pos (integrate ((Dot (Fin 1) (Fin 2))\<lparr>oldPos := \<lparr>vx = Fin 0, vy = Fin 0\<rparr>\<rparr>)))
       = Fin 4.54
   \<and> oldPos (integrate ((Dot (Fin 1) (Fin 2))\<lparr>oldPos := \<lparr>vx = Fin 0, vy = Fin 0\<rparr>\<rparr>))
       = \<lparr>vx = Fin 1, vy = Fin 2\<rparr>"
  using verlet_step [of "(Dot (Fin 1) (Fin 2))\<lparr>oldPos := \<lparr>vx = Fin 0, vy = Fin 0\<rparr>\<rparr>" Mouse]
  by (simp add: eval_defs finite_vector_def)

text \<open>
  C5: for an unpinned dot, when the distance \<open>d\<close> that the update stores in
  \<open>distMouse\<close> is at most the pointer's radius plus the dot's radius and the force
  \<open>(radius - d) / radius\<close> is at least 0.6, the update sets the dot's position to the
  pointer's position.
\<close>

theorem snap_to_pointer:
  assumes "\<not> pinned this"
    and "distMouse (Dot_update this m) \<le> mouse_radius m + radius this"
    and "Fin 0.6 \<le> (mouse_radius m - distMouse (Dot_update this m)) / mouse_radius m"
  shows "pos (Dot_update this m) = mouse_pos m"
proof -
  let ?d = "num_sqrt (vx (Vector_sub (pos (integrate this)) (mouse_pos m)) *
           vx (Vector_sub (pos (integrate this)) (mouse_pos m)) +
           vy (Vector_sub (pos (integrate this)) (mouse_pos m)) *
           vy (Vector_sub (pos (integrate this)) (mouse_pos m)))"
  have d: "distMouse (Dot_update this m) = ?d"
    using assms(1) unfolding Dot_update_def interact_def Let_def by simp
  have far: "\<not> ?d > mouse_radius m + radius this"
    using assms(2) d num_le_not_gt by simp
  have f: "\<not> (mouse_radius m - ?d) / mouse_radius m < Fin 0"
          "\<not> (mouse_radius m - ?d) / mouse_radius m < Fin 0.6"
    using assms(3) d num_ge_06_not_lt by simp_all
  show ?thesis
    using assms(1) far f unfolding Dot_update_def interact_def Let_def
    by (simp add: radius_integrate setXY_def)
qed

theorem snap_to_pointer_witness:
  "\<not> pinned (Dot (Fin 0) (Fin 0))
   \<and> distMouse (Dot_update (Dot (Fin 0) (Fin 0))
        \<lparr>mouse_pos = \<lparr>vx = Fin 0, vy = Fin 4.6\<rparr>, mouse_radius = Fin 40\<rparr>) = Fin 4
   \<and> pos (Dot_update (Dot (Fin 0) (Fin 0))
        \<lparr>mouse_pos = \<lparr>vx = Fin 0, vy = Fin 4.6\<rparr>, mouse_radius = Fin 40\<rparr>)
       = \<lparr>vx = Fin 0, vy = Fin 4.6\<rparr>"
proof -
  let ?m = "\<lparr>mouse_pos = \<lparr>vx = Fin 0, vy = Fin 4.6\<rparr>, mouse_radius = Fin 40\<rparr>"
  have p: "\<not> pinned (Dot (Fin 0) (Fin 0))" by (simp add: Dot_def)
  have d: "distMouse (Dot_update (Dot (Fin 0) (Fin 0)) ?m) = Fin 4"
    by (simp add: eval_defs sqrt_16)
  have h1: "distMouse (Dot_update (Dot (Fin 0) (Fin 0)) ?m)
            \<le> mouse_radius ?m + radius (Dot (Fin 0) (Fin 0))"
    unfolding d by (simp add: Dot_def number_ops)
  have h2: "Fin 0.6 \<le> (mouse_radius ?m - distMouse (Dot_update (Dot (Fin 0) (Fin 0)) ?m))
              / mouse_radius ?m"
    unfolding d by (simp add: number_ops)
  show ?thesis using snap_to_pointer [OF p h1 h2] p d by simp
qed

text \<open>
  C6: for an unpinned dot whose position after the Verlet step equals the pointer's
  position, the update leaves the dot as the Verlet step produced it; the distance it
  records is zero.
\<close>

theorem pointer_at_dot:
  assumes "\<not> pinned this" and "pos (integrate this) = mouse_pos m"
  shows "Dot_update this m = (integrate this)\<lparr>distMouse := Fin 0\<rparr>"
proof -
  have s: "Vector_sub (pos (integrate this)) (mouse_pos m) = \<lparr>vx = Fin 0, vy = Fin 0\<rparr>"
    using assms(2) by (simp add: Vector_sub_self)
  have z: "num_sqrt (Fin 0 * Fin 0 + Fin 0 * Fin 0) = Fin 0"
    by (simp add: number_ops)
  have k: "setXY (mouse_pos m) (vx (mouse_pos m)) (vy (mouse_pos m)) = mouse_pos m"
    by (simp add: setXY_def)
  show ?thesis
    using assms force_at_zero [of "mouse_radius m"]
    unfolding Dot_update_def interact_def Let_def s
    by (simp add: z k)
qed

theorem pointer_at_dot_witness:
  "\<not> pinned (Dot (Fin 0) (Fin 0))
   \<and> pos (integrate (Dot (Fin 0) (Fin 0))) = \<lparr>vx = Fin 0, vy = Fin 0.6\<rparr>
   \<and> Dot_update (Dot (Fin 0) (Fin 0))
        \<lparr>mouse_pos = \<lparr>vx = Fin 0, vy = Fin 0.6\<rparr>, mouse_radius = Fin 40\<rparr>
       = (integrate (Dot (Fin 0) (Fin 0)))\<lparr>distMouse := Fin 0\<rparr>"
proof -
  let ?m = "\<lparr>mouse_pos = \<lparr>vx = Fin 0, vy = Fin 0.6\<rparr>, mouse_radius = Fin 40\<rparr>"
  have p: "\<not> pinned (Dot (Fin 0) (Fin 0))" by (simp add: Dot_def)
  have i: "pos (integrate (Dot (Fin 0) (Fin 0))) = \<lparr>vx = Fin 0, vy = Fin 0.6\<rparr>"
    by (simp add: eval_defs)
  have h: "pos (integrate (Dot (Fin 0) (Fin 0))) = mouse_pos ?m"
    using i by simp
  show ?thesis using pointer_at_dot [OF p h] p i by simp
qed

text \<open>
  C7: for an unpinned dot, when the distance that the update stores in \<open>distMouse\<close>
  exceeds the pointer's radius plus the dot's radius, the position and the previous
  position after the update are exactly those of the Verlet step.
\<close>

theorem far_pointer_no_interaction:
  assumes "\<not> pinned this"
    and "distMouse (Dot_update this m) > mouse_radius m + radius this"
  shows "pos (Dot_update this m) = pos (integrate this)
       \<and> oldPos (Dot_update this m) = oldPos (integrate this)"
  using assms unfolding Dot_update_def interact_def Let_def
  by (auto simp: radius_integrate split: if_splits)

theorem far_pointer_no_interaction_witness:
  "\<not> pinned (Dot (Fin 0) (Fin 0))
   \<and> distMouse (Dot_update (Dot (Fin 0) (Fin 0)) Mouse)
       > mouse_radius Mouse + radius (Dot (Fin 0) (Fin 0))
   \<and> pos (Dot_update (Dot (Fin 0) (Fin 0)) Mouse) = \<lparr>vx = Fin 0, vy = Fin 0.6\<rparr>
   \<and> oldPos (Dot_update (Dot (Fin 0) (Fin 0)) Mouse) = \<lparr>vx = Fin 0, vy = Fin 0\<rparr>"
proof -
  have p: "\<not> pinned (Dot (Fin 0) (Fin 0))" by (simp add: Dot_def)
  have d: "distMouse (Dot_update (Dot (Fin 0) (Fin 0)) Mouse)
           > mouse_radius Mouse + radius (Dot (Fin 0) (Fin 0))"
    apply (simp add: eval_defs del: num_sqrt.simps)
    apply (rule lt_num_sqrt)
     apply simp_all
    done
  have i: "integrate (Dot (Fin 0) (Fin 0))
           = (Dot (Fin 0) (Fin 0))\<lparr>pos := \<lparr>vx = Fin 0, vy = Fin 0.6\<rparr>\<rparr>"
    by (simp add: eval_defs)
  show ?thesis
    using far_pointer_no_interaction [OF p d] p d
    by (simp add: i) (simp add: Dot_def Vector_def or_default_def)
qed

section \<open>Properties of Stick.update and Rope.update\<close>

lemma length_Stick_update: "length (Stick_update s ds) = length ds"
  by (simp add: Stick_update_def Let_def)

lemma Stick_update_other:
  "i \<noteq> startPoint s \<Longrightarrow> i \<noteq> endPoint s \<Longrightarrow> Stick_update s ds ! i = ds ! i"
  by (simp add: Stick_update_def Let_def)

lemma Stick_update_pos_only:
  "i < length ds \<Longrightarrow> (Stick_update s ds ! i)\<lparr>pos := pos (ds ! i)\<rparr> = ds ! i"
  by (cases "i = startPoint s"; cases "i = endPoint s")
     (simp_all add: Stick_update_def Let_def nth_list_update)

lemma Stick_update_pinned:
  "i < length ds \<Longrightarrow> pinned (ds ! i) \<Longrightarrow> Stick_update s ds ! i = ds ! i"
  by (cases "i = startPoint s"; cases "i = endPoint s")
     (simp_all add: Stick_update_def Let_def nth_list_update)

lemma fold_Stick_update_pinned:
  "i < length ds \<Longrightarrow> pinned (ds ! i) \<Longrightarrow>
   length (fold Stick_update ss ds) = length ds \<and> fold Stick_update ss ds ! i = ds ! i"
  by (induction ss arbitrary: ds) (simp_all add: length_Stick_update Stick_update_pinned)

lemma iterate_pinned:
  "i < length ds \<Longrightarrow> pinned (ds ! i) \<Longrightarrow>
   length (((\<lambda>ds. fold Stick_update ss ds) ^^ n) ds) = length ds
   \<and> ((\<lambda>ds. fold Stick_update ss ds) ^^ n) ds ! i = ds ! i"
  by (induction n) (simp_all add: fold_Stick_update_pinned)

subsection \<open>Rounding errors of one update\<close>




























lemma round_num_exact: "round_num (\<lambda>x. x) a = a"
  by (cases a) (simp_all add: round_num_def)

lemma Stick_update_fl_exact: "Stick_update_fl (\<lambda>x. x) s ds = Stick_update s ds"
  by (simp add: Stick_update_fl_def Stick_update_def round_num_exact Let_def)







lemmas stick_eval =
  Stick_update_def Let_def number_ops Dot_def Vector_def or_default_def
  ex_stick_def ex_dots_def ex_free_dots_def ex_stick15_def ex_coincident_def ex_anchored_def
  stick_error_def dist_vec_def

text \<open>
  C2: a pinned dot is not changed by \<open>Dot.update\<close>, whatever the pointer is;
  \<open>Stick.update\<close> leaves every pinned dot of the array as it is, its endpoints
  included; and \<open>Rope.update\<close>, which runs both, leaves every pinned dot of the rope
  as it is.
\<close>

theorem pinned_invariance:
  "(pinned d \<longrightarrow> Dot_update d m = d)
   \<and> (i < length ds \<and> pinned (ds ! i) \<longrightarrow> Stick_update s ds ! i = ds ! i)
   \<and> (j < length (dots r) \<and> pinned (dots r ! j) \<longrightarrow>
        dots (Rope_update r m) ! j = dots r ! j)"
proof (intro conjI impI)
  assume "pinned d" then show "Dot_update d m = d" by (simp add: Dot_update_def)
next
  assume "i < length ds \<and> pinned (ds ! i)"
  then show "Stick_update s ds ! i = ds ! i" by (simp add: Stick_update_pinned)
next
  assume a: "j < length (dots r) \<and> pinned (dots r ! j)"
  let ?ds = "map (\<lambda>d. Dot_update d m) (dots r)"
  have 1: "?ds ! j = dots r ! j" using a by (simp add: Dot_update_def)
  have 2: "j < length ?ds" "pinned (?ds ! j)" using a 1 by simp_all
  show "dots (Rope_update r m) ! j = dots r ! j"
    using iterate_pinned [OF 2, where ss = "sticks r" and n = "iterations r"] 1
    by (simp add: Rope_update_def Let_def)
qed

theorem pinned_invariance_witness:
  "pinned (ex_dots ! 0)
   \<and> Dot_update (ex_dots ! 0) Mouse = ex_dots ! 0
   \<and> Stick_update ex_stick ex_dots ! 0 = ex_dots ! 0
   \<and> dots (Rope_update ex_rope Mouse) ! 0 = ex_dots ! 0"
  using pinned_invariance [of "ex_dots ! 0" Mouse 0 ex_dots ex_stick 0 ex_rope]
  by (simp add: ex_dots_def ex_rope_def)

lemma ex_two_rope_value:
  "ex_two_rope = \<lparr>rope_x = Fin 100, rope_y = Fin 100, segments = 2, gap = Fin 15,
      dots = [Dot (Fin 100) (Fin 100), Dot (Fin 100) (Fin 115)],
      sticks = [\<lparr>startPoint = 0, endPoint = 1, tension = Fin 1, length_stick = Fin 15\<rparr>],
      iterations = 10\<rparr>"
  by (simp add: ex_two_rope_def Rope_def create_def or_default_def upt_0_2 Let_def Stick_def
      dist_vec_def Dot_def Vector_def number_ops sqrt_225)

lemma snap_first:
  "Dot_update (Dot (Fin 100) (Fin 100)) ex_pointer =
     (Dot (Fin 100) (Fin 100))\<lparr>pos := \<lparr>vx = Fin 100, vy = Fin 108\<rparr>, distMouse := Fin 7.4\<rparr>"
  by (simp add: eval_defs ex_pointer_def sqrt_1369_25)

lemma snap_second:
  "Dot_update (Dot (Fin 100) (Fin 115)) ex_pointer =
     (Dot (Fin 100) (Fin 115))\<lparr>pos := \<lparr>vx = Fin 100, vy = Fin 108\<rparr>, distMouse := Fin 7.6\<rparr>"
  by (simp add: eval_defs ex_pointer_def sqrt_1444_25)

text \<open>
  C3: the source has no guard for a stick whose two dots are at the same place. With both
  dots unpinned at (100, 108) and rest length 15, \<open>dist\<close> is 0, \<open>diff\<close> is
  \<open>Infinity\<close>, the offsets are \<open>0 * Infinity = NaN\<close>, and both positions
  become \<open>NaN\<close>. The same happens in \<open>Rope.update\<close> on a rope of two unpinned
  dots when the pointer is near enough to both: \<open>Dot.update\<close> moves both dots onto
  the pointer, and the first \<open>Stick.update\<close> then finds them at distance 0.
\<close>

theorem zero_distance_writes_NaN:
  "pos (ex_coincident ! startPoint ex_stick15) = pos (ex_coincident ! endPoint ex_stick15)
   \<and> map pos (Stick_update ex_stick15 ex_coincident)
       = [\<lparr>vx = NaN, vy = NaN\<rparr>, \<lparr>vx = NaN, vy = NaN\<rparr>]
   \<and> map pos (dots (Rope_update ex_two_rope ex_pointer))
       = [\<lparr>vx = NaN, vy = NaN\<rparr>, \<lparr>vx = NaN, vy = NaN\<rparr>]"
proof -
  have 1: "pos (ex_coincident ! startPoint ex_stick15)
           = pos (ex_coincident ! endPoint ex_stick15)"
    by (simp add: ex_coincident_def ex_stick15_def)
  have 2: "map pos (Stick_update ex_stick15 ex_coincident)
           = [\<lparr>vx = NaN, vy = NaN\<rparr>, \<lparr>vx = NaN, vy = NaN\<rparr>]"
    by (simp add: stick_eval)
  have 3: "map pos (dots (Rope_update ex_two_rope ex_pointer))
           = [\<lparr>vx = NaN, vy = NaN\<rparr>, \<lparr>vx = NaN, vy = NaN\<rparr>]"
    apply (simp add: Rope_update_def Let_def ex_two_rope_value snap_first snap_second
        eval_nat_numeral)
    apply (simp add: Stick_update_def Let_def number_ops Dot_def Vector_def or_default_def)
    done
  show ?thesis using 1 2 3 by blast
qed









text \<open>
  C8: for a stick whose two dots are unpinned, at finite positions with a nonzero
  distance \<open>d\<close>, and have the same finite nonzero mass, one \<open>Stick.update\<close> moves the
  start point by \<open>- k\<close> times the vector from start to end and the end point by
  \<open>+ k\<close> times that vector, where \<open>k = (length - d) / d * tension / 4\<close>.
\<close>

theorem mass_symmetry:
  fixes sx sy ex ey t L mv :: real
  assumes r: "startPoint s < length ds" "endPoint s < length ds"
    and np: "\<not> pinned (ds ! startPoint s)" "\<not> pinned (ds ! endPoint s)"
    and ms: "mass (ds ! startPoint s) = Fin mv" "mass (ds ! endPoint s) = Fin mv" "mv \<noteq> 0"
    and ps: "pos (ds ! startPoint s) = \<lparr>vx = Fin sx, vy = Fin sy\<rparr>"
    and pe: "pos (ds ! endPoint s) = \<lparr>vx = Fin ex, vy = Fin ey\<rparr>"
    and st: "tension s = Fin t" "length_stick s = Fin L"
    and nz: "dist_vec (pos (ds ! startPoint s)) (pos (ds ! endPoint s)) \<noteq> Fin 0"
  defines "d \<equiv> sqrt ((ex - sx) * (ex - sx) + (ey - sy) * (ey - sy))"
  defines "k \<equiv> (L - d) / d * t / 4"
  shows "pos (Stick_update s ds ! startPoint s)
           = \<lparr>vx = Fin (sx - k * (ex - sx)), vy = Fin (sy - k * (ey - sy))\<rparr>
       \<and> pos (Stick_update s ds ! endPoint s)
           = \<lparr>vx = Fin (ex + k * (ex - sx)), vy = Fin (ey + k * (ey - sy))\<rparr>"
proof -
  have sq: "(ex - sx) * (ex - sx) + (ey - sy) * (ey - sy) \<ge> 0" by simp
  have dnz: "d \<noteq> 0"
  proof
    assume "d = 0"
    then have "(ex - sx) * (ex - sx) + (ey - sy) * (ey - sy) = 0"
      unfolding d_def using sq by simp
    then have "ex - sx = 0 \<and> ey - sy = 0"
      by (metis add_nonneg_eq_0_iff mult_eq_0_iff zero_le_square)
    then show False using nz ps pe by (simp add: dist_vec_def Let_def number_ops)
  qed
  have ne: "startPoint s \<noteq> endPoint s"
  proof
    assume e: "startPoint s = endPoint s"
    then have "sx = ex \<and> sy = ey" using ps pe by simp
    then show False using dnz by (simp add: d_def)
  qed
  have half: "mv / (mv + mv) = 1 / 2" using ms(3) by (simp add: field_simps)
  have nneg: "\<not> (ex - sx) * (ex - sx) + (ey - sy) * (ey - sy) < 0" using sq by linarith
  show ?thesis
    using r np ms ps pe st ne dnz nneg half
    unfolding Stick_update_def Let_def
    by (simp add: number_ops d_def k_def nth_list_update field_simps)
qed

theorem mass_symmetry_witness:
  "\<not> pinned (ex_free_dots ! startPoint ex_stick)
   \<and> \<not> pinned (ex_free_dots ! endPoint ex_stick)
   \<and> mass (ex_free_dots ! startPoint ex_stick) = mass (ex_free_dots ! endPoint ex_stick)
   \<and> pos (Stick_update ex_stick ex_free_dots ! 0) = \<lparr>vx = Fin (- 0.75), vy = Fin (- 1)\<rparr>
   \<and> pos (Stick_update ex_stick ex_free_dots ! 1) = \<lparr>vx = Fin 3.75, vy = Fin 5\<rparr>"
proof -
  have nz: "dist_vec (pos (ex_free_dots ! startPoint ex_stick))
              (pos (ex_free_dots ! endPoint ex_stick)) \<noteq> Fin 0"
    by (simp add: stick_eval sqrt_25)
  show ?thesis
    using mass_symmetry [where s = ex_stick and ds = ex_free_dots and mv = 1
        and sx = 0 and sy = 0 and ex = 3 and ey = 4 and t = 1 and L = 10, OF _ _ _ _ _ _ _ _ _ _ _ nz]
    by (simp add: ex_stick_def ex_free_dots_def Dot_def Vector_def or_default_def sqrt_25)
qed

text \<open>
  C10: \<open>Stick.update\<close> returns an array of the same length in which every dot has its
  previous position, mass, radius, friction, gravity and pinned flag unchanged, differs
  from the dot before at most in its position, and is unchanged altogether when it is
  not an endpoint of the stick. The stick is only read: the result is the array alone.
\<close>

theorem Stick_update_frame:
  "length (Stick_update s ds) = length ds
   \<and> (\<forall>i < length ds.
        oldPos (Stick_update s ds ! i) = oldPos (ds ! i)
        \<and> mass (Stick_update s ds ! i) = mass (ds ! i)
        \<and> radius (Stick_update s ds ! i) = radius (ds ! i)
        \<and> friction (Stick_update s ds ! i) = friction (ds ! i)
        \<and> gravity (Stick_update s ds ! i) = gravity (ds ! i)
        \<and> pinned (Stick_update s ds ! i) = pinned (ds ! i)
        \<and> (Stick_update s ds ! i)\<lparr>pos := pos (ds ! i)\<rparr> = ds ! i
        \<and> (i \<noteq> startPoint s \<and> i \<noteq> endPoint s \<longrightarrow> Stick_update s ds ! i = ds ! i))"
proof (intro conjI allI impI)
  show "length (Stick_update s ds) = length ds" by (rule length_Stick_update)
next
  fix i assume i: "i < length ds"
  have e: "(Stick_update s ds ! i)\<lparr>pos := pos (ds ! i)\<rparr> = ds ! i"
    using i by (rule Stick_update_pos_only)
  show "(Stick_update s ds ! i)\<lparr>pos := pos (ds ! i)\<rparr> = ds ! i" by (rule e)
  show "oldPos (Stick_update s ds ! i) = oldPos (ds ! i)"
    using arg_cong [OF e, of oldPos] by simp
  show "mass (Stick_update s ds ! i) = mass (ds ! i)"
    using arg_cong [OF e, of mass] by simp
  show "radius (Stick_update s ds ! i) = radius (ds ! i)"
    using arg_cong [OF e, of radius] by simp
  show "friction (Stick_update s ds ! i) = friction (ds ! i)"
    using arg_cong [OF e, of friction] by simp
  show "gravity (Stick_update s ds ! i) = gravity (ds ! i)"
    using arg_cong [OF e, of gravity] by simp
  show "pinned (Stick_update s ds ! i) = pinned (ds ! i)"
    using arg_cong [OF e, of pinned] by simp
next
  fix i assume "i < length ds" "i \<noteq> startPoint s \<and> i \<noteq> endPoint s"
  then show "Stick_update s ds ! i = ds ! i" by (simp add: Stick_update_other)
qed

theorem Stick_update_frame_witness:
  "length (Stick_update ex_stick ex_dots) = 2
   \<and> oldPos (Stick_update ex_stick ex_dots ! 1) = \<lparr>vx = Fin 3, vy = Fin 4\<rparr>
   \<and> mass (Stick_update ex_stick ex_dots ! 1) = Fin 1
   \<and> radius (Stick_update ex_stick ex_dots ! 1) = Fin 1
   \<and> friction (Stick_update ex_stick ex_dots ! 1) = Fin 0.97
   \<and> gravity (Stick_update ex_stick ex_dots ! 1) = \<lparr>vx = Fin 0, vy = Fin 0.6\<rparr>
   \<and> pinned (Stick_update ex_stick ex_dots ! 1) = False"
  using Stick_update_frame [of ex_stick ex_dots, THEN conjunct2, THEN spec, of 1]
    Stick_update_frame [of ex_stick ex_dots, THEN conjunct1]
  by (simp add: ex_dots_def Dot_def Vector_def or_default_def)

section \<open>Properties of App.createRopes\<close>

declare createRopes_loop.simps [simp del]

lemma fold_push_dots_length:
  "length (dots (fold (\<lambda>i r. r\<lparr>dots := dots r @ [f i r]\<rparr>) xs r)) = length (dots r) + length xs"
  by (induction xs arbitrary: r) simp_all

lemma fold_push_sticks_dots:
  "dots (fold (\<lambda>i r. r\<lparr>sticks := sticks r @ [g i r]\<rparr>) xs r) = dots r"
  by (induction xs arbitrary: r) simp_all

lemma fold_push_dots_segments:
  "segments (fold (\<lambda>i r. r\<lparr>dots := dots r @ [f i r]\<rparr>) xs r) = segments r"
  by (induction xs arbitrary: r) simp_all

lemma length_dots_create: "length (dots (create r)) = length (dots r) + segments r"
  by (simp add: create_def Let_def fold_push_sticks_dots fold_push_dots_length)

lemma length_dots_Rope: "length (dots (Rope c)) = (if config_segments c = 0 then 10 else config_segments c)"
  by (simp add: Rope_def length_dots_create)

lemma pin_0_Rope:
  "config_segments c = 10 \<Longrightarrow>
   \<exists>r. pin 0 (Rope c) = Inr r \<and> 0 < length (dots r) \<and> pinned (dots r ! 0)"
proof -
  assume "config_segments c = 10"
  then have "0 < length (dots (Rope c))" by (simp add: length_dots_Rope)
  then show ?thesis by (simp add: pin_def)
qed

lemma createRopes_loop_result:
  "\<exists>new. createRopes_loop w h rnd i acc = Inr (acc @ new)
        \<and> length new = nat \<lceil>w * 0.06 + 1\<rceil> - i
        \<and> (\<forall>r \<in> set new. 0 < length (dots r) \<and> pinned (dots r ! 0))"
proof (induction w h rnd i acc rule: createRopes_loop.induct)
  case (1 w h rnd i ropes)
  show ?case
  proof (cases "real i < w * 0.06 + 1")
    case False
    then have "nat \<lceil>w * 0.06 + 1\<rceil> - i = 0" by linarith
    moreover have "createRopes_loop w h rnd i ropes = Inr ropes"
      using False by (subst createRopes_loop.simps) (simp add: number_ops)
    ultimately show ?thesis by simp
  next
    case True
    let ?c = "\<lparr>config_x = randomNumBetween (rnd (2 * i)) (Fin w * Fin 0.3) (Fin w * Fin 0.7),
               config_y = Fin 0,
               config_gap = randomNumBetween (rnd (2 * i + 1)) (Fin h * Fin 0.05) (Fin h * Fin 0.08),
               config_segments = 10\<rparr>"
    obtain r where r: "pin 0 (Rope ?c) = Inr r" "0 < length (dots r)" "pinned (dots r ! 0)"
      using pin_0_Rope [of ?c] by auto
    have cond: "Fin (real i) < Fin w * Fin 0.06 + Fin 1" using True by (simp add: number_ops)
    have unfold: "createRopes_loop w h rnd i ropes
                  = createRopes_loop w h rnd (Suc i) (ropes @ [r])"
      using cond r(1) by (subst createRopes_loop.simps) (simp add: Let_def)
    from "1.IH" [OF refl cond refl refl refl refl refl r(1)]
    obtain new where new: "createRopes_loop w h rnd (Suc i) (ropes @ [r]) = Inr ((ropes @ [r]) @ new)"
      "length new = nat \<lceil>w * 0.06 + 1\<rceil> - Suc i"
      "\<forall>r \<in> set new. 0 < length (dots r) \<and> pinned (dots r ! 0)"
      by blast
    have "length (r # new) = nat \<lceil>w * 0.06 + 1\<rceil> - i"
      using new(2) True by simp linarith
    then show ?thesis
      using unfold new r by (intro exI [of _ "r # new"]) simp
  qed
qed


text \<open>
  C9, as stated, fails for the width 10: the loop runs while \<open>i < 0.6 + 1\<close>, so it
  creates two ropes, and \<open>floor (10 * 0.06) + 1\<close> is 1.
\<close>

theorem ropes_at_width_10_counterexample:
  "\<not> isl (createRopes 10 100 ex_rnd)
   \<and> length (projr (createRopes 10 100 ex_rnd)) = 2
   \<and> nat \<lfloor>(10::real) * 0.06\<rfloor> + 1 = 1"
proof -
  from createRopes_loop_result [of 10 100 ex_rnd 0 "[]"]
  obtain ropes where ropes: "createRopes 10 100 ex_rnd = Inr ropes"
    "length ropes = nat \<lceil>(10::real) * 0.06 + 1\<rceil>"
    by (auto simp: createRopes_def)
  have "nat \<lceil>(10::real) * 0.06 + 1\<rceil> = 2" by simp
  then show ?thesis using ropes by simp
qed

text \<open>
  C9, amended: for a width that is not negative, \<open>createRopes\<close> returns
  \<open>ceiling (w * 0.06) + 1\<close> ropes, which is \<open>floor (w * 0.06) + 1\<close> exactly when
  \<open>w * 0.06\<close> is an integer, and every rope has a dot 0, which is pinned.
\<close>

theorem createRopes_count:
  assumes "0 \<le> w"
  shows "\<exists>ropes. createRopes w h rnd = Inr ropes
           \<and> length ropes = nat \<lceil>w * 0.06\<rceil> + 1
           \<and> (length ropes = nat \<lfloor>w * 0.06\<rfloor> + 1 \<longleftrightarrow> w * 0.06 \<in> \<int>)
           \<and> (\<forall>r \<in> set ropes. 0 < length (dots r) \<and> pinned (dots r ! 0))"
proof -
  from createRopes_loop_result [of w h rnd 0 "[]"]
  obtain ropes where ropes: "createRopes w h rnd = Inr ropes"
    "length ropes = nat \<lceil>w * 0.06 + 1\<rceil>"
    "\<forall>r \<in> set ropes. 0 < length (dots r) \<and> pinned (dots r ! 0)"
    by (auto simp: createRopes_def)
  have nn: "0 \<le> w * 0.06" using assms by simp
  then have c0: "0 \<le> \<lceil>w * 0.06\<rceil>" and f0: "0 \<le> \<lfloor>w * 0.06\<rfloor>" by linarith+
  have "\<lceil>w * 0.06 + 1\<rceil> = \<lceil>w * 0.06\<rceil> + 1" by simp
  then have len: "length ropes = nat \<lceil>w * 0.06\<rceil> + 1"
    using ropes(2) c0 by (simp add: nat_add_distrib)
  have "(nat \<lceil>w * 0.06\<rceil> = nat \<lfloor>w * 0.06\<rfloor>) = (\<lceil>w * 0.06\<rceil> = \<lfloor>w * 0.06\<rfloor>)"
    by (rule eq_nat_nat_iff [OF c0 f0])
  also have "\<dots> = (w * 0.06 \<in> \<int>)"
  proof
    assume "\<lceil>w * 0.06\<rceil> = \<lfloor>w * 0.06\<rfloor>"
    then have "w * 0.06 = of_int \<lfloor>w * 0.06\<rfloor>"
      by (simp add: ceiling_altdef split: if_splits)
    then show "w * 0.06 \<in> \<int>" by (metis Ints_of_int)
  next
    assume "w * 0.06 \<in> \<int>"
    then obtain k where "w * 0.06 = of_int k" by (rule Ints_cases)
    then show "\<lceil>w * 0.06\<rceil> = \<lfloor>w * 0.06\<rfloor>" by simp
  qed
  finally have "(length ropes = nat \<lfloor>w * 0.06\<rfloor> + 1) = (w * 0.06 \<in> \<int>)"
    using len by simp
  then show ?thesis using ropes(1,3) len by blast
qed

theorem createRopes_count_witness:
  "\<not> isl (createRopes 10 100 ex_rnd)
   \<and> length (projr (createRopes 10 100 ex_rnd)) = 2
   \<and> pinned (dots (projr (createRopes 10 100 ex_rnd) ! 0) ! 0)
   \<and> pinned (dots (projr (createRopes 10 100 ex_rnd) ! 1) ! 0)"
proof -
  have w: "(0::real) \<le> 10" by simp
  from createRopes_count [OF w, of 100 ex_rnd]
  obtain ropes where ropes: "createRopes 10 100 ex_rnd = Inr ropes"
    "length ropes = nat \<lceil>(10::real) * 0.06\<rceil> + 1"
    "\<forall>r \<in> set ropes. 0 < length (dots r) \<and> pinned (dots r ! 0)"
    by blast
  have l: "length ropes = 2" using ropes(2) by simp
  then have "ropes ! 0 \<in> set ropes" "ropes ! 1 \<in> set ropes" by simp_all
  then show ?thesis using ropes l by simp
qed


end
